theory Spec2Isabelle
  imports Complex_Main
begin

section \<open>Conventions of the embedding\<close>

text \<open>
  The repository is numerical Python over NumPy arrays of doubles. The embedding reads
  every float as a real number: rounding and overflow are not modelled, and the
  elementary functions are the ones of analysis (\<open>ln\<close>, \<open>exp\<close>, \<open>sqrt\<close>, \<open>powr\<close>).
  What Python does beyond returning a value is a value of the model:
  \<^item> a Python exception or a process exit is an \<open>error\<close> on the left of a sum;
  \<^item> where NumPy would leave the reals (a division by zero or a logarithm of a
    non-positive number gives \<open>inf\<close> or \<open>nan\<close> with a RuntimeWarning and the program
    goes on), the model stops with \<open>NonFinite\<close>: such runs are outside the embedding;
  \<^item> where two arrays of different shapes meet, NumPy broadcasts them or raises; the
    model stops with \<open>ShapeMismatch\<close>;
  \<^item> console output of the smooth extension functions is a list of printed lines,
    returned beside the result.
\<close>

datatype error =
    Abort string
  | SysExit string
  | ValueError
  | IndexError
  | ZeroDivisionError
  | NameError
  | NonFinite
  | ShapeMismatch

text \<open>
  Modelled from the spec: \<open>bs_error_abort\<close> is imported from \<open>bs_python_utils.bsutils\<close>,
  a module that is not among the sources. The spec describes its effect as
  process-abort-style reporting with a formatted message, a fatal precondition violation
  that is not recoverable: the call never returns to its caller. The message is kept
  without the values Python formats into it.
\<close>

definition bs_error_abort :: "string \<Rightarrow> error + 'a" where
  "bs_error_abort msg = Inl (Abort msg)"

section \<open>distance\_covariances.py\<close>

text \<open>
  A two-dimensional array is the list of its rows. \<open>test_square\<close> (bsnputils.py) aborts
  unless the array has two dimensions and as many columns as rows; on a list of rows
  this is: every row is as long as the list.
\<close>

type_synonym matrix = "real list list"

definition test_square :: "matrix \<Rightarrow> error + nat" where
  "test_square A =
     (if list_all (\<lambda>r. length r = length A) A then Inr (length A)
      else bs_error_abort ''The matrix A should be square'')"



text \<open>\<open>np.sum(A, 0)\<close>: the sums of the columns; \<open>np.sum(A, 1)\<close>: the sums of the rows.\<close>

definition sum_axis0 :: "nat \<Rightarrow> matrix \<Rightarrow> real list" where
  "sum_axis0 n A = map (\<lambda>j. sum_list (map (\<lambda>r. r ! j) A)) [0..<n]"

definition sum_axis1 :: "matrix \<Rightarrow> real list" where
  "sum_axis1 A = map sum_list A"

definition fill_diagonal :: "matrix \<Rightarrow> real \<Rightarrow> matrix" where
  "fill_diagonal A v = map (\<lambda>i. (A ! i)[i := v]) [0..<length A]"

text \<open>
  \<open>_double_decenter\<close>. The factors are Python integers, \<open>n - 2\<close> and \<open>n - 1\<close> in the
  unbiased case. With \<open>unbiased\<close> and \<open>n = 1\<close> the only entry is not finite and is then
  overwritten by \<open>fill_diagonal\<close>; with \<open>unbiased\<close> and \<open>n = 2\<close> the entries off the
  diagonal are divided by zero.
\<close>

definition double_decenter :: "matrix \<Rightarrow> bool \<Rightarrow> error + matrix" where
  "double_decenter A unb =
     (case test_square A of
        Inl e \<Rightarrow> Inl e
      | Inr n \<Rightarrow>
          let A_1 = sum_axis0 n A;
              A_2 = sum_axis1 A;
              A_0 = sum_list A_1;
              fac2 = (if unb then int n - 2 else int n);
              fac1 = (if unb then int n - 1 else int n)
          in if unb \<and> n = 1 then Inr [[0]]
             else if n \<noteq> 0 \<and> fac1 * fac2 = 0 then Inl NonFinite
             else
               let A_dd = map (\<lambda>i. map (\<lambda>j.
                       A ! i ! j - A_1 ! j / real_of_int fac2 - A_2 ! i / real_of_int fac2
                         + A_0 / real_of_int (fac1 * fac2)) [0..<n]) [0..<n]
               in Inr (if unb then fill_diagonal A_dd 0 else A_dd))"

text \<open>\<open>_dcov_prod\<close>: \<open>np.sum(A * B) / (n * fac3)\<close> for square matrices of one size.\<close>

definition sum_prod :: "matrix \<Rightarrow> matrix \<Rightarrow> real" where
  "sum_prod A B =
     sum_list (map (\<lambda>(ra, rb). sum_list (map (\<lambda>(a, b). a * b) (zip ra rb))) (zip A B))"

definition dcov_prod :: "matrix \<Rightarrow> matrix \<Rightarrow> bool \<Rightarrow> error + real" where
  "dcov_prod A B unb =
     (case test_square A of
        Inl e \<Rightarrow> Inl e
      | Inr n \<Rightarrow>
          (case test_square B of
             Inl e \<Rightarrow> Inl e
           | Inr m \<Rightarrow>
               if m = n then
                 let fac3 = (if unb then int n - 3 else int n)
                 in if int n * fac3 = 0 then Inl NonFinite
                    else Inr (sum_prod A B / real_of_int (int n * fac3))
               else bs_error_abort ''A and B should be square matrices of the same size''))"











section \<open>bsnputils.py: smooth extensions of log, exp, pow and x log x\<close>

text \<open>
  A NumPy array is its shape with its elements in row-major order. The four functions
  work element by element, so they keep the shape and transform the elements.
  A Python result is \<open>None\<close>, one array, or a tuple of arrays. A printed line is the
  list of the pieces an f-string puts together; numbers are kept as numbers.
\<close>

record ndarray =
  shape :: "nat list"
  elems :: "real list"

datatype pyval = PyNone | Arr ndarray | Tup "ndarray list"

datatype piece = Str string | Num real | Cnt nat | Vals "real list"

type_synonym line = "piece list"

definition like :: "ndarray \<Rightarrow> real list \<Rightarrow> ndarray" where
  "like arr xs = arr\<lparr>elems := xs\<rparr>"

text \<open>\<open>np.min\<close> and \<open>np.max\<close> of a non-empty array (an empty one raises ValueError,
  which every caller below checks first).\<close>

definition np_min :: "real list \<Rightarrow> real" where
  "np_min xs = fold min (tl xs) (hd xs)"

definition np_max :: "real list \<Rightarrow> real" where
  "np_max xs = fold max (tl xs) (hd xs)"

definition np_where :: "bool list \<Rightarrow> real list \<Rightarrow> real list \<Rightarrow> real list" where
  "np_where c xs ys = map (\<lambda>(b, x, y). if b then x else y) (zip c (zip xs ys))"

definition map2 :: "(real \<Rightarrow> 'b \<Rightarrow> 'a) \<Rightarrow> real list \<Rightarrow> 'b list \<Rightarrow> 'a list" where
  "map2 f xs ys = map (\<lambda>(x, y). f x y) (zip xs ys)"

definition plural :: "nat \<Rightarrow> string" where
  "plural n = (if n > 1 then ''s'' else [])"

text \<open>
  \<open>nplog\<close>. In the first branch every element is above \<open>eps\<close>; a non-positive element
  there (possible only for a negative \<open>eps\<close>) has no finite logarithm. In the second
  branch \<open>math.log(eps)\<close> raises ValueError for \<open>eps <= 0\<close>.
\<close>

definition nplog :: "ndarray \<Rightarrow> real \<Rightarrow> int \<Rightarrow> bool \<Rightarrow> line list \<times> (error + pyval)" where
  "nplog arr eps deriv verbose =
     (let a = elems arr in
      if deriv \<notin> set [0, 1, 2] then ([], bs_error_abort ''deriv can only be 0, 1, or 2'')
      else if a = [] then ([], Inl ValueError)
      else if np_min a > eps then
        (if list_ex (\<lambda>x. x \<le> 0) a then ([], Inl NonFinite)
         else if deriv = 0 then ([], Inr (Arr (like arr (map ln a))))
         else if deriv = 1 then
           ([], Inr (Tup [like arr (map ln a), like arr (map (\<lambda>x. 1 / x) a)]))
         else
           ([], Inr (Tup [like arr (map ln a), like arr (map (\<lambda>x. 1 / x) a),
                          like arr (map (\<lambda>x. - 1 / (x * x)) a)])))
      else if eps \<le> 0 then ([], Inl ValueError)
      else
        let logarreps = map (\<lambda>x. ln (max x eps)) a;
            darr = map (\<lambda>x. 1 - x / eps) a;
            logarr_smaller = map (\<lambda>d. ln eps - d * (1 + d / 2)) darr;
            n_small_args = length (filter (\<lambda>x. x < eps) a);
            out = (if verbose \<and> n_small_args > 0
                   then [[Str ''nplog: '', Cnt n_small_args, Str '' argument'',
                          Str (plural n_small_args), Str '' smaller than '', Num eps,
                          Str '': mini = '', Num (np_min a)]]
                   else []);
            logeps = np_where (map (\<lambda>x. x > eps) a) logarreps logarr_smaller
        in if deriv = 0 then (out, Inr (Arr (like arr logeps)))
           else
             let arreps = map (\<lambda>x. max x eps) a;
                 der_logarreps = map (\<lambda>x. 1 / x) arreps;
                 der_logarr_smaller = map (\<lambda>d. (1 + d) / eps) darr;
                 dlogeps = np_where (map (\<lambda>x. x > eps) a) der_logarreps der_logarr_smaller
             in if deriv = 1 then (out, Inr (Tup [like arr logeps, like arr dlogeps]))
                else
                  let der2_logarreps = map (\<lambda>x. - 1 / (x * x)) arreps;
                      der2_logarr_smaller = replicate (length a) (- 1 / (eps * eps));
                      d2logeps = np_where (map (\<lambda>x. x > eps) a)
                                   der2_logarreps der2_logarr_smaller
                  in (out, Inr (Tup [like arr logeps, like arr dlogeps, like arr d2logeps])))"

text \<open>
  \<open>npexp\<close>. The second branch prints \<open>exparr\<close> and \<open>expval\<close> with two \<open>print\<close> calls
  that stand outside the \<open>if verbose:\<close> block.
\<close>

definition npexp ::
  "ndarray \<Rightarrow> real \<Rightarrow> real \<Rightarrow> int \<Rightarrow> bool \<Rightarrow> line list \<times> (error + pyval)" where
  "npexp arr bigx lowx deriv verbose =
     (let a = elems arr in
      if deriv \<notin> set [0, 1, 2] then ([], bs_error_abort ''deriv can only be 0, 1, or 2'')
      else if a = [] then ([], Inl ValueError)
      else if np_max a \<le> bigx \<and> np_min a \<ge> lowx then
        (let exparr = like arr (map exp a)
         in if deriv = 0 then ([], Inr (Arr exparr))
            else if deriv = 1 then ([], Inr (Tup [exparr, exparr]))
            else ([], Inr (Tup [exparr, exparr, exparr])))
      else
        let exparr = map (\<lambda>x. exp (max (min x bigx) lowx)) a;
            out1 = [[Str ''exparr='', Vals exparr]];
            ebigx = exp bigx;
            elowx = exp lowx;
            darrb = map (\<lambda>x. x - bigx) a;
            darrl = map (\<lambda>x. lowx - x) a;
            exparr_larger = map (\<lambda>d. ebigx * (1 + d * (1 + 0.5 * d))) darrb;
            exparr_smaller = map (\<lambda>d. elowx * (1 - d * (1 - 0.5 * d))) darrl;
            n_large_args = length (filter (\<lambda>x. x > bigx) a);
            n_small_args = length (filter (\<lambda>x. x < lowx) a);
            out2 = (if verbose
                    then [[Str ''npexp: '', Cnt n_large_args, Str '' argument'',
                           Str (plural n_large_args), Str '' larger than '', Num bigx,
                           Str '': maxi = '', Num (np_max a)],
                          [Str ''npexp: '', Cnt n_small_args, Str '' argument'',
                           Str (plural n_small_args), Str '' smaller than '', Num lowx,
                           Str '': mini = '', Num (np_min a)]]
                    else []);
            out3 = [[Vals exparr]];
            out = out1 @ out2 @ out3;
            expval1 = np_where (map (\<lambda>x. x > bigx) a) exparr_larger exparr;
            expval = np_where (map (\<lambda>x. x < lowx) a) exparr_smaller expval1
        in if deriv = 0 then (out, Inr (Arr (like arr expval)))
           else
             let dexparr_larger = map (\<lambda>d. ebigx * (1 + d)) darrb;
                 dexparr_smaller = map (\<lambda>d. elowx * (1 - d)) darrl;
                 dexpval1 = np_where (map (\<lambda>x. x > bigx) a) dexparr_larger exparr;
                 dexpval = np_where (map (\<lambda>x. x < lowx) a) dexparr_smaller dexpval1
             in if deriv = 1 then (out, Inr (Tup [like arr expval, like arr dexpval]))
                else (out, Inr (Tup [like arr expval, like arr dexpval, like arr exparr])))"

text \<open>
  \<open>npxlogx\<close>. The first branch returns \<open>arr * np.log(arr)\<close> whatever \<open>deriv\<close> is.
\<close>

definition npxlogx :: "ndarray \<Rightarrow> real \<Rightarrow> int \<Rightarrow> bool \<Rightarrow> line list \<times> (error + pyval)" where
  "npxlogx arr eps deriv verbose =
     (let a = elems arr in
      if deriv \<notin> set [0, 1, 2] then ([], bs_error_abort ''deriv must be 0, 1, or 2'')
      else if a = [] then ([], Inl ValueError)
      else if np_min a > eps then
        (if list_ex (\<lambda>x. x \<le> 0) a then ([], Inl NonFinite)
         else ([], Inr (Arr (like arr (map (\<lambda>x. x * ln x) a)))))
      else if eps \<le> 0 then ([], Inl ValueError)
      else
        let logeps = ln eps;
            logarreps = map (\<lambda>x. ln (max x eps)) a;
            xlogarreps = map2 (\<lambda>x l. x * l) a logarreps;
            xlogarr_smaller = map (\<lambda>x. x * (x / eps + logeps - 1)) a;
            n_small_args = length (filter (\<lambda>x. x < eps) a);
            out = (if verbose \<and> n_small_args > 0
                   then [[Str ''npxlogx: '', Cnt n_small_args, Str '' argument'',
                          Str (plural n_small_args), Str '' smaller than '', Num eps,
                          Str '': mini = '', Num (np_min a)]]
                   else []);
            xlogval = np_where (map (\<lambda>x. x > eps) a) xlogarreps xlogarr_smaller
        in if deriv = 0 then (out, Inr (Arr (like arr xlogval)))
           else
             let dxlogarreps = map (\<lambda>l. 1 + l) logarreps;
                 dxlogarr_smaller = map (\<lambda>x. logeps + x / eps) a;
                 dxlogval = np_where (map (\<lambda>x. x > eps) a) dxlogarreps dxlogarr_smaller
             in if deriv = 1 then (out, Inr (Tup [like arr xlogval, like arr dxlogval]))
                else
                  let d2xlogval = map (\<lambda>x. 1 / max x eps) a
                  in (out, Inr (Tup [like arr xlogval, like arr dxlogval,
                                     like arr d2xlogval])))"

text \<open>
  \<open>nppow\<close>. The exponent is a Python int, a Python float or an array. A power of one
  element: with an integer exponent \<open>x ** k\<close> is defined for every base but \<open>0\<close> with a
  negative \<open>k\<close>; with a float exponent it follows C's \<open>pow\<close> (a negative base needs an
  integral exponent). \<open>None\<close> stands for \<open>inf\<close> or \<open>nan\<close>.
\<close>

datatype exponent = PyInt int | PyFloat real | PyArray ndarray

definition pow_int :: "real \<Rightarrow> int \<Rightarrow> real option" where
  "pow_int x k = (if x = 0 \<and> k < 0 then None else Some (x powi k))"

definition pow_float :: "real \<Rightarrow> real \<Rightarrow> real option" where
  "pow_float x y =
     (if 0 < x then Some (x powr y)
      else if x = 0 then (if 0 < y then Some 0 else if y = 0 then Some 1 else None)
      else if y = of_int \<lfloor>y\<rfloor> then Some (x powi \<lfloor>y\<rfloor>)
      else None)"

text \<open>The first statement of \<open>nppow\<close>: only a float exponent has its base checked, and
  the check is \<open>mina < 0.0\<close>.\<close>

definition check_base :: "ndarray \<Rightarrow> exponent \<Rightarrow> error + unit" where
  "check_base a b =
     (case b of
        PyFloat y \<Rightarrow>
          if elems a = [] then Inl ValueError
          else if np_min (elems a) < 0 then bs_error_abort ''All elements of a must be positive!''
          else Inr ()
      | _ \<Rightarrow> Inr ())"

text \<open>The branch \<open>isinstance(b, (int, float))\<close>: \<open>pw\<close> is the power of one element and
  \<open>bv\<close> the exponent as a number. No \<open>return\<close> is reached for \<open>deriv\<close> outside
  \<open>0, 1, 2\<close>, so Python returns \<open>None\<close>.\<close>

definition nppow_scalar ::
  "ndarray \<Rightarrow> (real \<Rightarrow> real option) \<Rightarrow> real \<Rightarrow> int \<Rightarrow> error + pyval" where
  "nppow_scalar a pw bv deriv =
     (case those (map pw (elems a)) of
        None \<Rightarrow> Inl NonFinite
      | Some a_pow_b \<Rightarrow>
          if deriv = 0 then Inr (Arr (like a a_pow_b))
          else if list_ex (\<lambda>x. x \<le> 0) (elems a) then Inl NonFinite
          else
            let log_a = map ln (elems a);
                derivs1 = [like a (map2 (\<lambda>p x. bv * p / x) a_pow_b (elems a)),
                           like a (map2 (\<lambda>p l. p * l) a_pow_b log_a)]
            in if deriv = 1 then Inr (Tup (like a a_pow_b # derivs1))
               else
                 let b1 = bv - 1;
                     a_pow_b1 = map2 (\<lambda>p x. p / x) a_pow_b (elems a)
                 in if deriv = 2 then
                      let derivs2 =
                            [like a (map2 (\<lambda>p x. bv * b1 * p / x) a_pow_b1 (elems a)),
                             like a (map2 (\<lambda>p l. p * (1 + bv * l)) a_pow_b1 log_a),
                             like a (map2 (\<lambda>p l. p * l * l) a_pow_b log_a)]
                      in Inr (Tup (like a a_pow_b # derivs1 @ derivs2))
                    else Inr PyNone)"

text \<open>The array branch calls \<open>nplog(avec)\<close> with the defaults \<open>eps = 1e-30\<close>,
  \<open>deriv = 0\<close>, \<open>verbose = False\<close>, which returns one array.\<close>

definition nplog_default :: "real list \<Rightarrow> error + real list" where
  "nplog_default avec =
     (case snd (nplog \<lparr>shape = [length avec], elems = avec\<rparr> (1 / 10 ^ 30) 0 False) of
        Inl e \<Rightarrow> Inl e
      | Inr (Arr v) \<Rightarrow> Inr (elems v)
      | Inr _ \<Rightarrow> Inl ValueError)"

definition nppow_array :: "ndarray \<Rightarrow> ndarray \<Rightarrow> int \<Rightarrow> error + pyval" where
  "nppow_array a b deriv =
     (if shape a \<noteq> shape b
      then bs_error_abort ''b is not a number or an array of the same shape as a!''
      else
        let avec = elems a; bvec = elems b in
        case those (map2 pow_float avec bvec) of
          None \<Rightarrow> Inl NonFinite
        | Some a_pow_b \<Rightarrow>
            if deriv = 0 then Inr (Arr (like a a_pow_b))
            else if list_ex (\<lambda>x. x = 0) avec then Inl NonFinite
            else
              let der_wrt_a = map2 (\<lambda>p (y, x). p * y / x) a_pow_b (zip bvec avec) in
              case nplog_default avec of
                Inl e \<Rightarrow> Inl e
              | Inr log_avec \<Rightarrow>
                  let der_wrt_b = map2 (\<lambda>p l. p * l) a_pow_b log_avec;
                      derivs1 = [like a der_wrt_a, like a der_wrt_b]
                  in if deriv = 1 then Inr (Tup (like a a_pow_b # derivs1))
                     else
                       let a_pow_b1 = map2 (\<lambda>p x. p / x) a_pow_b avec;
                           b1 = map (\<lambda>y. y - 1) bvec;
                           der2_wrt_aa = map2 (\<lambda>p (y, y1, x). y * y1 * p / x) a_pow_b1
                                           (zip bvec (zip b1 avec));
                           der2_wrt_ab = map2 (\<lambda>p (y, l). p * (1 + y * l)) a_pow_b1
                                           (zip bvec log_avec);
                           der2_wrt_bb = map2 (\<lambda>p l. p * l * l) a_pow_b log_avec;
                           derivs2 = [like a der2_wrt_aa, like a der2_wrt_ab, like a der2_wrt_bb]
                       in if deriv = 2 then Inr (Tup (like a a_pow_b # derivs1 @ derivs2))
                          else Inr PyNone)"

definition nppow :: "ndarray \<Rightarrow> exponent \<Rightarrow> int \<Rightarrow> error + pyval" where
  "nppow a b deriv =
     (case check_base a b of
        Inl e \<Rightarrow> Inl e
      | Inr _ \<Rightarrow>
          (case b of
             PyInt k \<Rightarrow> nppow_scalar a (\<lambda>x. pow_int x k) (of_int k) deriv
           | PyFloat y \<Rightarrow> nppow_scalar a (\<lambda>x. pow_float x y) y deriv
           | PyArray barr \<Rightarrow> nppow_array a barr deriv))"

text \<open>Reading a result: component \<open>k\<close> of a tuple; a single array is its own
  component \<open>0\<close>.\<close>

definition component :: "nat \<Rightarrow> pyval \<Rightarrow> ndarray option" where
  "component k r =
     (case r of
        PyNone \<Rightarrow> None
      | Arr v \<Rightarrow> (if k = 0 then Some v else None)
      | Tup vs \<Rightarrow> (if k < length vs then Some (vs ! k) else None))"

text \<open>
  What \<open>nplog\<close> computes for one element \<open>x\<close>, value and first derivative: the two
  alternatives that \<open>np.where(arr > eps, ...)\<close> chooses between.
\<close>

definition log_ext :: "real \<Rightarrow> real \<Rightarrow> real" where
  "log_ext eps x =
     (if x > eps then ln x else ln eps - (1 - x / eps) * (1 + (1 - x / eps) / 2))"

definition dlog_ext :: "real \<Rightarrow> real \<Rightarrow> real" where
  "dlog_ext eps x = (if x > eps then 1 / x else (1 + (1 - x / eps)) / eps)"

text \<open>Concrete arrays for the evaluations below.\<close>

definition arr3 :: ndarray where
  "arr3 = \<lparr>shape = [3], elems = [2, 1, 1 / 2]\<rparr>"

definition two :: ndarray where
  "two = \<lparr>shape = [1], elems = [2]\<rparr>"

definition one :: ndarray where
  "one = \<lparr>shape = [1], elems = [1]\<rparr>"

definition minus_two :: ndarray where
  "minus_two = \<lparr>shape = [1], elems = [- 2]\<rparr>"

definition sixty :: ndarray where
  "sixty = \<lparr>shape = [1], elems = [60]\<rparr>"

section \<open>bsnputils.py: Gauss-Hermite and Gauss-Legendre quadrature\<close>

text \<open>
  \<open>gauher\<close>. The loop over \<open>j\<close> runs the three-term recurrence of the orthonormal
  Hermite polynomials; after it \<open>p1\<close> and \<open>p2\<close> hold the polynomials of degree \<open>n\<close> and
  \<open>n - 1\<close> at \<open>z\<close> (the third variable \<open>p3\<close> is the old \<open>p2\<close>).
\<close>

definition EPS_gauher :: real where
  "EPS_gauher = 1 / 10 ^ 14"

definition PIM4 :: real where
  "PIM4 = 0.7511255444649425"

definition MAXIT :: nat where
  "MAXIT = 10"

definition gauher_step :: "real \<Rightarrow> nat \<Rightarrow> real \<times> real \<Rightarrow> real \<times> real" where
  "gauher_step z j p =
     (z * sqrt (2 / (real j + 1)) * fst p - sqrt (real j / (real j + 1)) * snd p, fst p)"

definition gauher_poly :: "nat \<Rightarrow> real \<Rightarrow> real \<times> real" where
  "gauher_poly n z = fold (gauher_step z) [0..<n] (PIM4, 0)"

text \<open>
  The loop \<open>for its in range(MAXIT)\<close> with its \<open>break\<close>. The last argument counts the
  passes that remain, \<open>its\<close> is the loop variable; the result is the new \<open>z\<close>, the last
  \<open>pp\<close> and the value \<open>its\<close> has when the loop is left. One pass computes
  \<open>pp = sqrt(2 * n) * p2\<close> and the new estimate \<open>z1 - p1 / pp\<close>. When the passes are used up
  without a \<open>break\<close>, \<open>its\<close> keeps the value of the last pass. With no pass at all
  \<open>its\<close> would be unbound. \<open>dz\<close> is what a division by \<open>pp = 0\<close> gives:
  ZeroDivisionError on Python floats, \<open>inf\<close> or \<open>nan\<close> on NumPy scalars.
\<close>

definition gauher_pp :: "nat \<Rightarrow> real \<Rightarrow> real" where
  "gauher_pp n z = sqrt (2 * real n) * snd (gauher_poly n z)"

definition gauher_next :: "nat \<Rightarrow> real \<Rightarrow> real" where
  "gauher_next n z = z - fst (gauher_poly n z) / gauher_pp n z"

fun gauher_newton :: "error \<Rightarrow> nat \<Rightarrow> real \<Rightarrow> nat \<Rightarrow> nat \<Rightarrow> error + real \<times> real \<times> nat" where
  "gauher_newton dz n z its 0 = Inl NameError"
| "gauher_newton dz n z its (Suc k) =
     (if gauher_pp n z = 0 then Inl dz
      else if \<bar>gauher_next n z - z\<bar> \<le> EPS_gauher then Inr (gauher_next n z, gauher_pp n z, its)
      else if k = 0 then Inr (gauher_next n z, gauher_pp n z, its)
      else gauher_newton dz n (gauher_next n z) (Suc its) k)"

text \<open>
  The first guess of root \<open>i\<close>. For \<open>i = 0\<close> and \<open>i = 1\<close> every number is a Python
  float; from \<open>i = 2\<close> on \<open>z\<close> is computed from \<open>x[0]\<close>, a NumPy scalar.
\<close>

definition gauher_guess :: "nat \<Rightarrow> nat \<Rightarrow> real \<Rightarrow> real list \<Rightarrow> error + real" where
  "gauher_guess n i z x =
     (if i = 0 then
        let n2 = 2 * real n + 1 in Inr (sqrt n2 - 1.85575 * (n2 powr (- 0.16667)))
      else if i = 1 then
        (if z = 0 then Inl ZeroDivisionError else Inr (z - 1.14 * (real n powr 0.426) / z))
      else if i = 2 then Inr (1.86 * z - 0.86 * x ! 0)
      else if i = 3 then Inr (1.91 * z - 0.91 * x ! 1)
      else Inr (2 * z - x ! (i - 2)))"

text \<open>
  The loop \<open>for i in range(m)\<close> on the state \<open>(z, x, w)\<close>. After the Newton loop comes
  the test \<open>if its >= MAXIT: sys.exit("too many iterations in gauher")\<close>.
\<close>

fun gauher_loop ::
  "nat \<Rightarrow> nat list \<Rightarrow> real \<times> real list \<times> real list \<Rightarrow> error + real \<times> real list \<times> real list" where
  "gauher_loop n [] s = Inr s"
| "gauher_loop n (i # is) (z, x, w) =
     (case gauher_guess n i z x of
        Inl e \<Rightarrow> Inl e
      | Inr z0 \<Rightarrow>
          (case gauher_newton (if i < 2 then ZeroDivisionError else NonFinite) n z0 0 MAXIT of
             Inl e \<Rightarrow> Inl e
           | Inr (z', pp, its) \<Rightarrow>
               if its \<ge> MAXIT then Inl (SysExit ''too many iterations in gauher'')
               else gauher_loop n is
                      (z', (x[i := z'])[n - 1 - i := - z'],
                       (w[i := 2 / (pp * pp)])[n - 1 - i := 2 / (pp * pp)])))"

definition gauher :: "nat \<Rightarrow> error + real list \<times> real list" where
  "gauher n =
     (case gauher_loop n [0..<(n + 1) div 2] (0, replicate n 0, replicate n 0) of
        Inl e \<Rightarrow> Inl e
      | Inr (z, x, w) \<Rightarrow> Inr (rev x, w))"











section \<open>bsnputils.py: gaussian\_expectation\<close>

















text \<open>What \<open>dcov_dcor\<close> gives for the two observations \<open>X = Y = [0, 1]\<close>: the distance
  matrix \<open>[[0, 1], [1, 0]]\<close>, doubly centered, and the statistics computed from it.\<close>

definition dd_pair :: matrix where
  "dd_pair = [[- 1 / 2, 1 / 2], [1 / 2, - 1 / 2]]"



section \<open>Properties of distance\_covariances.py\<close>

subsection \<open>Sums over lists and index ranges\<close>

lemma upt_0_2: "[0..<2] = [0, 1]"
  by code_simp


lemma sum_list_upt: "sum_list (map f [0..<n]) = (\<Sum>i<n. f i)"
  by (simp add: interv_sum_list_conv_sum_set_nat atLeast0LessThan)

lemma sum_list_nth: "length xs = n \<Longrightarrow> sum_list xs = (\<Sum>j<n. xs ! j)"
  by (auto simp: sum_list_sum_nth atLeast0LessThan)

lemma sum_list_column: "sum_list (map (\<lambda>r. r ! j) A) = (\<Sum>i<length A. A ! i ! j)"
  using sum_list_nth [of "map (\<lambda>r. r ! j) A" "length A"] by simp

lemma test_square_Inr:
  "test_square A = Inr n \<longleftrightarrow> n = length A \<and> (\<forall>i<n. length (A ! i) = n)"
  by (auto simp: test_square_def bs_error_abort_def list_all_length)

subsection \<open>Double centering\<close>

lemma decenter_entry_sums:
  fixes a :: "nat \<Rightarrow> nat \<Rightarrow> real"
  assumes "0 < n"
  defines "c \<equiv> \<lambda>j. \<Sum>i<n. a i j" and "r \<equiv> \<lambda>i. \<Sum>j<n. a i j"
  defines "t \<equiv> \<Sum>j<n. c j"
  defines "d \<equiv> \<lambda>i j. a i j - c j / real n - r i / real n + t / (real n * real n)"
  shows "(\<Sum>j<n. d i j) = 0" and "(\<Sum>i<n. d i j) = 0"
proof -
  have t': "t = (\<Sum>i<n. r i)"
    unfolding t_def c_def r_def by (rule sum.swap)
  have "(\<Sum>j<n. d i j)
      = r i - t / real n - real n * (r i / real n) + real n * (t / (real n * real n))"
    unfolding d_def
    by (simp add: sum.distrib sum_subtractf sum_divide_distrib [symmetric] r_def t_def)
  also have "\<dots> = 0" using assms(1) by (simp add: field_simps)
  finally show "(\<Sum>j<n. d i j) = 0" .
  have "(\<Sum>i<n. d i j)
      = c j - real n * (c j / real n) - t / real n + real n * (t / (real n * real n))"
    unfolding d_def
    by (simp add: sum.distrib sum_subtractf sum_divide_distrib [symmetric] c_def t')
  also have "\<dots> = 0" using assms(1) by (simp add: field_simps)
  finally show "(\<Sum>i<n. d i j) = 0" .
qed

text \<open>
  C9. For a square matrix \<open>A\<close> of size \<open>n\<close> (the one \<open>test_square\<close> accepts), the biased
  double centering \<open>_double_decenter(A, unbiased=False)\<close> returns an \<open>n\<close> by \<open>n\<close> matrix
  whose every row sum and every column sum is zero, exactly, in real arithmetic.
\<close>

theorem double_decenter_biased_sums_zero:
  assumes sq: "test_square A = Inr n"
  shows "\<exists>D. double_decenter A False = Inr D \<and> length D = n \<and>
           (\<forall>i<n. length (D ! i) = n \<and> sum_list (D ! i) = 0) \<and>
           (\<forall>j<n. sum_list (map (\<lambda>r. r ! j) D) = 0)"
proof (cases "n = 0")
  case True
  with sq show ?thesis by (simp add: double_decenter_def)
next
  case False
  from sq have len: "length A = n" and rows: "\<And>i. i < n \<Longrightarrow> length (A ! i) = n"
    by (simp_all add: test_square_Inr)
  define a where "a = (\<lambda>i j. A ! i ! j)"
  define c where "c = (\<lambda>j. \<Sum>i<n. a i j)"
  define r where "r = (\<lambda>i. \<Sum>j<n. a i j)"
  define t where "t = (\<Sum>j<n. c j)"
  define d where "d = (\<lambda>i j. a i j - c j / real n - r i / real n + t / (real n * real n))"
  define D where "D = map (\<lambda>i. map (\<lambda>j. d i j) [0..<n]) [0..<n]"
  have A1: "sum_axis0 n A ! j = c j" if "j < n" for j
    using that by (simp add: sum_axis0_def sum_list_column len c_def a_def)
  have A2: "sum_axis1 A ! i = r i" if "i < n" for i
    using that sum_list_nth [OF rows [OF that]] by (simp add: sum_axis1_def len r_def a_def)
  have A0: "sum_list (sum_axis0 n A) = t"
    using sum_list_nth [of "sum_axis0 n A" n] A1 by (simp add: sum_axis0_def t_def)
  have eq: "double_decenter A False = Inr D"
    using False sq A1 A2 A0
    by (simp add: double_decenter_def Let_def D_def d_def a_def)
  have zero: "(\<Sum>j<n. d i j) = 0" "(\<Sum>i<n. d i j) = 0" for i j
    using decenter_entry_sums [of n a] False unfolding d_def c_def r_def t_def by simp_all
  have "sum_list (D ! i) = 0" if "i < n" for i
    using that zero(1) by (simp add: D_def sum_list_upt)
  moreover have "sum_list (map (\<lambda>r. r ! j) D) = 0" if "j < n" for j
    using that zero(2) [of j] unfolding sum_list_column by (simp add: D_def)
  moreover have "length D = n" "\<And>i. i < n \<Longrightarrow> length (D ! i) = n"
    by (simp_all add: D_def)
  ultimately show ?thesis using eq by blast
qed

theorem double_decenter_biased_sums_zero_witness:
  "test_square [[1, 2], [3, 5]] = Inr 2 \<and>
   double_decenter [[1, 2], [3, 5]] False = Inr [[1/4, -1/4], [-1/4, 1/4]] \<and>
   (\<exists>D. double_decenter [[1, 2], [3, 5]] False = Inr D \<and> length D = 2 \<and>
           (\<forall>i<2. length (D ! i) = 2 \<and> sum_list (D ! i) = 0) \<and>
           (\<forall>j<2. sum_list (map (\<lambda>r. r ! j) D) = 0))"
proof -
  have sq: "test_square [[1, 2], [3, 5]] = Inr 2"
    by (simp add: test_square_def)
  have ev: "double_decenter [[1, 2], [3, 5]] False = Inr [[1/4, -1/4], [-1/4, 1/4]]"
    by (simp add: double_decenter_def sq sum_axis0_def sum_axis1_def Let_def upt_0_2)
  show ?thesis
    using sq ev double_decenter_biased_sums_zero [OF sq] by simp
qed

subsection \<open>Bootstrap p-values\<close>








lemma dcov_prod_pair: "dcov_prod dd_pair dd_pair False = Inr (1 / 4)"
  by (simp add: dcov_prod_def test_square_def sum_prod_def dd_pair_def)










section \<open>Properties of the smooth extensions\<close>

subsection \<open>Arrays\<close>

lemma np_min_Min: "xs \<noteq> [] \<Longrightarrow> np_min xs = Min (set xs)"
  using Min.set_eq_fold [of "hd xs" "tl xs"] by (cases xs) (simp_all add: np_min_def)

lemma np_min_greater_iff: "xs \<noteq> [] \<Longrightarrow> c < np_min xs \<longleftrightarrow> (\<forall>x\<in>set xs. c < x)"
  by (simp add: np_min_Min)

lemma np_min_less_iff: "xs \<noteq> [] \<Longrightarrow> np_min xs < c \<longleftrightarrow> (\<exists>x\<in>set xs. x < c)"
  by (simp add: np_min_Min Min_less_iff)

lemma length_np_where [simp]:
  "length (np_where c xs ys) = min (length c) (min (length xs) (length ys))"
  by (simp add: np_where_def)

lemma nth_np_where:
  "i < length c \<Longrightarrow> i < length xs \<Longrightarrow> i < length ys \<Longrightarrow>
   np_where c xs ys ! i = (if c ! i then xs ! i else ys ! i)"
  by (simp add: np_where_def)

lemma shape_like [simp]: "shape (like arr xs) = shape arr"
  by (simp add: like_def)

lemma elems_like [simp]: "elems (like arr xs) = xs"
  by (simp add: like_def)

lemma component_Arr [simp]: "component 0 (Arr v) = Some v"
  by (simp add: component_def)

lemma component_Tup [simp]: "k < length vs \<Longrightarrow> component k (Tup vs) = Some (vs ! k)"
  by (simp add: component_def)

subsection \<open>nplog\<close>

lemma nplog_value:
  assumes "0 < eps" and "deriv \<in> {0, 1, 2}" and "elems arr \<noteq> []"
  shows "\<exists>r v. snd (nplog arr eps deriv verbose) = Inr r \<and> component 0 r = Some v \<and>
           shape v = shape arr \<and> elems v = map (log_ext eps) (elems arr) \<and>
           (1 \<le> deriv \<longrightarrow> (\<exists>d. component 1 r = Some d \<and>
               elems d = map (dlog_ext eps) (elems arr)))"
proof (cases "np_min (elems arr) > eps")
  case True
  then have all: "\<forall>x\<in>set (elems arr). eps < x"
    using assms(3) by (simp add: np_min_greater_iff)
  with assms(1) have pos: "\<not> list_ex (\<lambda>x. x \<le> 0) (elems arr)"
    by (fastforce simp: list_ex_iff)
  from all have m1: "map ln (elems arr) = map (log_ext eps) (elems arr)"
    by (simp add: log_ext_def)
  from all have m2: "map (\<lambda>x. 1 / x) (elems arr) = map (dlog_ext eps) (elems arr)"
    by (simp add: dlog_ext_def)
  from assms(2) consider "deriv = 0" | "deriv = 1" | "deriv = 2" by auto
  then show ?thesis
    using True pos assms m1 m2 by cases (simp_all add: nplog_def Let_def)
next
  case False
  have w1: "np_where (map (\<lambda>x. x > eps) a) (map (\<lambda>x. ln (max x eps)) a)
              (map (\<lambda>d. ln eps - d * (1 + d / 2)) (map (\<lambda>x. 1 - x / eps) a))
            = map (log_ext eps) a" for a
    by (rule nth_equalityI) (auto simp: nth_np_where log_ext_def max_def)
  have w2: "np_where (map (\<lambda>x. x > eps) a) (map (\<lambda>x. 1 / x) (map (\<lambda>x. max x eps) a))
              (map (\<lambda>d. (1 + d) / eps) (map (\<lambda>x. 1 - x / eps) a))
            = map (dlog_ext eps) a" for a
    by (rule nth_equalityI) (auto simp: nth_np_where dlog_ext_def max_def)
  from assms(2) consider "deriv = 0" | "deriv = 1" | "deriv = 2" by auto
  then show ?thesis
    using False assms w1 w2 by cases (simp_all add: nplog_def Let_def)
qed

text \<open>
  C1. For \<open>eps > 0\<close>, a non-empty array and \<open>deriv\<close> among \<open>0, 1, 2\<close>, \<open>nplog\<close> returns;
  the value (the result itself, or the first component of the tuple) has the shape of
  the input, and at every position: for \<open>a_i > eps\<close> it is \<open>ln(a_i)\<close>; for \<open>a_i <= eps\<close>
  it is \<open>ln(eps) - darr * (1 + darr / 2)\<close> with \<open>darr = 1 - a_i / eps\<close>; at \<open>a_i = eps\<close>
  it is \<open>ln(eps)\<close>. When \<open>deriv >= 1\<close> the first derivative is \<open>1 / a_i\<close> above \<open>eps\<close>
  and \<open>1 / eps\<close> at \<open>a_i = eps\<close>, the value of the direct form there.
\<close>

theorem nplog_elementwise:
  assumes "0 < eps" and "deriv \<in> {0, 1, 2}" and "elems arr \<noteq> []"
  shows "\<exists>r v. snd (nplog arr eps deriv verbose) = Inr r \<and> component 0 r = Some v \<and>
           shape v = shape arr \<and> length (elems v) = length (elems arr) \<and>
           (\<forall>i<length (elems arr).
              (eps < elems arr ! i \<longrightarrow> elems v ! i = ln (elems arr ! i)) \<and>
              (elems arr ! i \<le> eps \<longrightarrow>
                 elems v ! i
                   = ln eps - (1 - elems arr ! i / eps) * (1 + (1 - elems arr ! i / eps) / 2)) \<and>
              (elems arr ! i = eps \<longrightarrow> elems v ! i = ln eps)) \<and>
           (1 \<le> deriv \<longrightarrow> (\<exists>d. component 1 r = Some d \<and>
              length (elems d) = length (elems arr) \<and>
              (\<forall>i<length (elems arr).
                 (eps < elems arr ! i \<longrightarrow> elems d ! i = 1 / elems arr ! i) \<and>
                 (elems arr ! i = eps \<longrightarrow> elems d ! i = 1 / eps))))"
proof -
  from nplog_value [OF assms, of verbose] obtain r v
    where r: "snd (nplog arr eps deriv verbose) = Inr r" "component 0 r = Some v"
      "shape v = shape arr" "elems v = map (log_ext eps) (elems arr)"
      and d: "1 \<le> deriv \<longrightarrow> (\<exists>d. component 1 r = Some d \<and>
               elems d = map (dlog_ext eps) (elems arr))"
    by blast
  have v: "\<forall>i<length (elems arr).
              (eps < elems arr ! i \<longrightarrow> elems v ! i = ln (elems arr ! i)) \<and>
              (elems arr ! i \<le> eps \<longrightarrow>
                 elems v ! i
                   = ln eps - (1 - elems arr ! i / eps) * (1 + (1 - elems arr ! i / eps) / 2)) \<and>
              (elems arr ! i = eps \<longrightarrow> elems v ! i = ln eps)"
    using assms(1) by (simp add: r(4) log_ext_def)
  have d': "1 \<le> deriv \<longrightarrow> (\<exists>d. component 1 r = Some d \<and>
              length (elems d) = length (elems arr) \<and>
              (\<forall>i<length (elems arr).
                 (eps < elems arr ! i \<longrightarrow> elems d ! i = 1 / elems arr ! i) \<and>
                 (elems arr ! i = eps \<longrightarrow> elems d ! i = 1 / eps)))"
  proof
    assume "1 \<le> deriv"
    with d obtain dd
      where dd: "component 1 r = Some dd" "elems dd = map (dlog_ext eps) (elems arr)"
      by blast
    have "\<forall>i<length (elems arr).
                 (eps < elems arr ! i \<longrightarrow> elems dd ! i = 1 / elems arr ! i) \<and>
                 (elems arr ! i = eps \<longrightarrow> elems dd ! i = 1 / eps)"
      using assms(1) by (simp add: dd(2) dlog_ext_def)
    with dd show "\<exists>d. component 1 r = Some d \<and>
              length (elems d) = length (elems arr) \<and>
              (\<forall>i<length (elems arr).
                 (eps < elems arr ! i \<longrightarrow> elems d ! i = 1 / elems arr ! i) \<and>
                 (elems arr ! i = eps \<longrightarrow> elems d ! i = 1 / eps))"
      by auto
  qed
  from r v d' show ?thesis by (auto simp: r(4))
qed

lemma nplog_arr3:
  "nplog arr3 1 1 False
     = ([], Inr (Tup [\<lparr>shape = [3], elems = [ln 2, 0, - 5 / 8]\<rparr>,
                      \<lparr>shape = [3], elems = [1 / 2, 1, 3 / 2]\<rparr>]))"
  by (simp add: nplog_def arr3_def Let_def np_min_def np_where_def like_def)

theorem nplog_elementwise_witness:
  "(0::real) < 1 \<and> (1::int) \<in> {0, 1, 2} \<and> elems arr3 \<noteq> [] \<and>
   snd (nplog arr3 1 1 False)
     = Inr (Tup [\<lparr>shape = [3], elems = [ln 2, 0, - 5 / 8]\<rparr>,
                 \<lparr>shape = [3], elems = [1 / 2, 1, 3 / 2]\<rparr>]) \<and>
   (\<exists>r v. snd (nplog arr3 1 1 False) = Inr r \<and> component 0 r = Some v \<and>
           shape v = shape arr3 \<and> length (elems v) = length (elems arr3) \<and>
           (\<forall>i<length (elems arr3).
              (1 < elems arr3 ! i \<longrightarrow> elems v ! i = ln (elems arr3 ! i)) \<and>
              (elems arr3 ! i \<le> 1 \<longrightarrow>
                 elems v ! i
                   = ln 1 - (1 - elems arr3 ! i / 1) * (1 + (1 - elems arr3 ! i / 1) / 2)) \<and>
              (elems arr3 ! i = 1 \<longrightarrow> elems v ! i = ln 1)) \<and>
           ((1::int) \<le> 1 \<longrightarrow> (\<exists>d. component 1 r = Some d \<and>
              length (elems d) = length (elems arr3) \<and>
              (\<forall>i<length (elems arr3).
                 (1 < elems arr3 ! i \<longrightarrow> elems d ! i = 1 / elems arr3 ! i) \<and>
                 (elems arr3 ! i = 1 \<longrightarrow> elems d ! i = 1 / 1)))))"
proof -
  have h: "(0::real) < 1" "(1::int) \<in> {0, 1, 2}" "elems arr3 \<noteq> []"
    by (simp_all add: arr3_def)
  show ?thesis
    using h nplog_arr3 nplog_elementwise [OF h, of False] by simp
qed

subsection \<open>The \<open>deriv\<close> argument\<close>

text \<open>
  C3 does not hold of the code. \<open>nppow\<close> has no check of \<open>deriv\<close>: with \<open>deriv = 3\<close> or
  \<open>deriv = -1\<close> no \<open>return\<close> is reached and the call returns \<open>None\<close> instead of
  aborting. \<open>npxlogx\<close> with every element above \<open>eps\<close> returns the value alone for
  \<open>deriv = 1\<close> and \<open>deriv = 2\<close>, not a tuple with the derivatives.
\<close>

theorem deriv_contract_violations:
  "nppow two (PyFloat 2) 3 = Inr PyNone \<and>
   nppow two (PyInt 2) (- 1) = Inr PyNone \<and>
   npxlogx one (1 / 10 ^ 30) 1 False = ([], Inr (Arr \<lparr>shape = [1], elems = [0]\<rparr>)) \<and>
   npxlogx one (1 / 10 ^ 30) 2 False = ([], Inr (Arr \<lparr>shape = [1], elems = [0]\<rparr>))"
  by (simp add: nppow_def check_base_def nppow_scalar_def pow_float_def pow_int_def
      npxlogx_def two_def one_def np_min_def Let_def like_def map2_def)

subsection \<open>Console output\<close>

text \<open>
  C8 does not hold of the code. With \<open>verbose = False\<close> and an element above \<open>bigx\<close>,
  \<open>npexp\<close> prints two lines: \<open>exparr=...\<close> and the array \<open>expval\<close>.
\<close>

theorem npexp_prints_without_verbose:
  "fst (npexp sixty 50 (- 50) 0 False) = [[Str ''exparr='', Vals [exp 50]], [Vals [exp 50]]] \<and>
   snd (npexp sixty 50 (- 50) 0 False) = Inr (Arr \<lparr>shape = [1], elems = [exp 50 * 61]\<rparr>)"
  by (simp add: npexp_def sixty_def np_min_def np_max_def Let_def like_def np_where_def)

subsection \<open>nppow with a scalar exponent\<close>

lemma those_map_Some:
  "(\<And>x. x \<in> set xs \<Longrightarrow> pw x = Some (f x)) \<Longrightarrow> those (map pw xs) = Some (map f xs)"
  by (induction xs) simp_all

lemma nppow_scalar_value:
  assumes pw: "\<And>x. x \<in> set (elems a) \<Longrightarrow> pw x = Some (f x)"
    and pos: "list_all (\<lambda>x. 0 < x) (elems a)" and d: "deriv \<in> {0, 1, 2}"
  shows "\<exists>r v. nppow_scalar a pw bv deriv = Inr r \<and> component 0 r = Some v \<and>
           shape v = shape a \<and> elems v = map f (elems a)"
proof -
  have t: "those (map pw (elems a)) = Some (map f (elems a))"
    using pw by (rule those_map_Some)
  have nf: "\<not> list_ex (\<lambda>x. x \<le> 0) (elems a)"
    using pos by (fastforce simp: list_ex_iff list_all_iff)
  from d consider "deriv = 0" | "deriv = 1" | "deriv = 2" by auto
  then show ?thesis
    using t nf by cases (simp_all add: nppow_scalar_def Let_def)
qed

lemma nppow_scalar_no_abort: "nppow_scalar a pw bv deriv \<noteq> Inl (Abort msg)"
  by (simp add: nppow_scalar_def Let_def split: option.splits)

text \<open>
  C5, as the claim states it, fails: with an integer exponent the base is not checked.
  \<open>nppow([-2.0], 2)\<close> returns \<open>[4.0]\<close>.
\<close>

theorem nppow_int_negative_base_counterexample:
  "elems minus_two = [- 2] \<and> (- 2 :: real) \<le> 0 \<and>
   nppow minus_two (PyInt 2) 0 = Inr (Arr \<lparr>shape = [1], elems = [4]\<rparr>)"
  by (simp add: nppow_def check_base_def nppow_scalar_def pow_int_def minus_two_def like_def)

text \<open>
  C5, as the code has it. With a float exponent and a strictly negative element in \<open>a\<close>
  the call aborts with the message ``All elements of a must be positive!''. With an
  integer exponent the call never aborts. For a non-empty \<open>a\<close> with every element
  strictly positive and \<open>deriv\<close> among \<open>0, 1, 2\<close>, the value returned (the result itself
  or the first component of the tuple) is \<open>a ** b\<close> element by element, for a float and
  for an integer exponent. (A zero element with a float exponent is left open.)
\<close>

theorem nppow_scalar_exponent:
  "(list_ex (\<lambda>x. x < 0) (elems a) \<longrightarrow>
      nppow a (PyFloat y) deriv = Inl (Abort ''All elements of a must be positive!'')) \<and>
   (\<forall>msg. nppow a (PyInt k) deriv \<noteq> Inl (Abort msg)) \<and>
   (elems a \<noteq> [] \<and> list_all (\<lambda>x. 0 < x) (elems a) \<and> deriv \<in> {0, 1, 2} \<longrightarrow>
      (\<exists>r v. nppow a (PyFloat y) deriv = Inr r \<and> component 0 r = Some v \<and>
         shape v = shape a \<and> elems v = map (\<lambda>x. x powr y) (elems a)) \<and>
      (\<exists>r v. nppow a (PyInt k) deriv = Inr r \<and> component 0 r = Some v \<and>
         shape v = shape a \<and> elems v = map (\<lambda>x. x powi k) (elems a)))"
proof (intro conjI impI allI)
  assume neg: "list_ex (\<lambda>x. x < 0) (elems a)"
  then have ne: "elems a \<noteq> []" by auto
  from neg have "np_min (elems a) < 0"
    by (simp add: np_min_less_iff [OF ne] list_ex_iff)
  with ne show "nppow a (PyFloat y) deriv = Inl (Abort ''All elements of a must be positive!'')"
    by (simp add: nppow_def check_base_def bs_error_abort_def)
next
  fix msg
  show "nppow a (PyInt k) deriv \<noteq> Inl (Abort msg)"
    by (simp add: nppow_def check_base_def nppow_scalar_no_abort)
next
  assume h: "elems a \<noteq> [] \<and> list_all (\<lambda>x. 0 < x) (elems a) \<and> deriv \<in> {0, 1, 2}"
  then have pos: "\<And>x. x \<in> set (elems a) \<Longrightarrow> 0 < x" by (simp add: list_all_iff)
  have "\<not> np_min (elems a) < 0"
    using h pos by (auto simp: np_min_less_iff dest: pos)
  then have c: "check_base a (PyFloat y) = Inr ()"
    using h by (simp add: check_base_def)
  have "\<And>x. x \<in> set (elems a) \<Longrightarrow> pow_float x y = Some (x powr y)"
    using pos by (simp add: pow_float_def)
  from nppow_scalar_value [of a "\<lambda>x. pow_float x y" "\<lambda>x. x powr y", OF this] h c
  show "\<exists>r v. nppow a (PyFloat y) deriv = Inr r \<and> component 0 r = Some v \<and>
         shape v = shape a \<and> elems v = map (\<lambda>x. x powr y) (elems a)"
    by (simp add: nppow_def)
  have "\<And>x. x \<in> set (elems a) \<Longrightarrow> pow_int x k = Some (x powi k)"
    using pos by (fastforce simp: pow_int_def)
  from nppow_scalar_value [of a "\<lambda>x. pow_int x k" "\<lambda>x. x powi k", OF this] h
  show "\<exists>r v. nppow a (PyInt k) deriv = Inr r \<and> component 0 r = Some v \<and>
         shape v = shape a \<and> elems v = map (\<lambda>x. x powi k) (elems a)"
    by (simp add: nppow_def check_base_def)
qed

theorem nppow_scalar_exponent_witness:
  "list_ex (\<lambda>x. x < 0) (elems minus_two) \<and>
   nppow minus_two (PyFloat 2) 0 = Inl (Abort ''All elements of a must be positive!'') \<and>
   elems two \<noteq> [] \<and> list_all (\<lambda>x. 0 < x) (elems two) \<and> (1::int) \<in> {0, 1, 2} \<and>
   (\<exists>r v. nppow two (PyFloat 2) 1 = Inr r \<and> component 0 r = Some v \<and>
         shape v = shape two \<and> elems v = [4]) \<and>
   (\<exists>r v. nppow two (PyInt 2) 1 = Inr r \<and> component 0 r = Some v \<and>
         shape v = shape two \<and> elems v = [4])"
  using nppow_scalar_exponent [of minus_two 2 0 2] nppow_scalar_exponent [of two 2 1 2]
  by (simp add: minus_two_def two_def)

section \<open>Properties of the quadrature rules\<close>

subsection \<open>The iteration budget of \<open>gauher\<close>\<close>

lemma gauher_newton_its:
  "gauher_newton dz n z its k = Inr (z', pp, its') \<Longrightarrow> its' < its + k"
proof (induction k arbitrary: z its)
  case 0
  then show ?case by simp
next
  case (Suc k)
  then show ?case
    by (fastforce simp: Let_def split: if_splits)
qed

lemma gauher_newton_error:
  "gauher_newton dz n z its k = Inl e \<Longrightarrow> e = dz \<or> e = NameError"
proof (induction k arbitrary: z its)
  case 0
  then show ?case by simp
next
  case (Suc k)
  then show ?case
    by (fastforce simp: Let_def split: if_splits)
qed

lemma gauher_guess_error: "gauher_guess n i z x = Inl e \<Longrightarrow> e = ZeroDivisionError"
  by (auto simp: gauher_guess_def Let_def split: if_splits)

lemma gauher_loop_no_exit: "gauher_loop n is s \<noteq> Inl (SysExit msg)"
proof (induction "is" arbitrary: s)
  case Nil
  then show ?case by simp
next
  case (Cons i "is")
  obtain z x w where s: "s = (z, x, w)" by (cases s)
  show ?case
  proof (cases "gauher_guess n i z x")
    case (Inl e)
    then show ?thesis using gauher_guess_error [OF Inl] by (simp add: s)
  next
    case (Inr z0)
    show ?thesis
    proof (cases "gauher_newton (if i < 2 then ZeroDivisionError else NonFinite) n z0 0 MAXIT")
      case (Inl e)
      then show ?thesis using gauher_newton_error [OF Inl] Inr by (auto simp: s split: if_splits)
    next
      case (Inr r)
      obtain z' pp its where r: "r = (z', pp, its)" by (cases r)
      from gauher_newton_its [OF Inr [unfolded r]] have "its < MAXIT" by simp
      then show ?thesis using \<open>gauher_guess n i z x = Inr z0\<close> Inr r Cons.IH by (simp add: s)
    qed
  qed
qed

subsection \<open>Closed forms of one Newton pass for small \<open>n\<close>\<close>

lemma upt_0_1: "[0..<1] = [0]"
  by code_simp

lemma sqrt_half: "sqrt (1 / 2) = sqrt 2 / 2"
  by (simp add: real_sqrt_divide real_div_sqrt)


lemma gauher_poly_1: "gauher_poly (Suc 0) z = (z * sqrt 2 * PIM4, PIM4)"
  by (simp add: gauher_poly_def gauher_step_def upt_0_1)

lemma gauher_poly_2: "gauher_poly 2 z = (sqrt 2 * PIM4 * (z * z - 1 / 2), z * sqrt 2 * PIM4)"
  by (simp add: gauher_poly_def gauher_step_def upt_0_2 sqrt_half algebra_simps)


lemma PIM4_pos: "0 < PIM4"
  by (simp add: PIM4_def)

lemma gauher_pp_2: "gauher_pp 2 z = 2 * sqrt 2 * PIM4 * z"
  by (simp add: gauher_pp_def gauher_poly_2)

lemma gauher_next_2: "z \<noteq> 0 \<Longrightarrow> gauher_next 2 z = (z * z + 1 / 2) / (2 * z)"
  using PIM4_pos by (simp add: gauher_next_def gauher_pp_2 gauher_poly_2 field_simps)



lemma gauher_pp_1: "gauher_pp (Suc 0) z = sqrt 2 * PIM4"
  by (simp add: gauher_pp_def gauher_poly_1)

lemma gauher_next_1: "gauher_next (Suc 0) z = 0"
  using PIM4_pos by (simp add: gauher_next_def gauher_pp_1 gauher_poly_1)

lemma MAXIT_Suc: "MAXIT = Suc 9"
  by (simp add: MAXIT_def)

lemma gauher_next_2_far:
  assumes "2 \<le> z"
  shows "z / 2 \<le> gauher_next 2 z" and "EPS_gauher < \<bar>gauher_next 2 z - z\<bar>"
    and "gauher_pp 2 z \<noteq> 0"
proof -
  have z: "0 < z" "z \<noteq> 0" using assms by simp_all
  have N: "gauher_next 2 z = z / 2 + 1 / (4 * z)"
    using z by (simp add: gauher_next_2 field_simps)
  have q: "0 < 1 / (4 * z)" "1 / (4 * z) \<le> 1 / 8"
    using assms by (simp_all add: field_simps)
  show "z / 2 \<le> gauher_next 2 z" using q unfolding N by linarith
  have "gauher_next 2 z - z \<le> - 7 / 8" using q assms unfolding N by linarith
  then show "EPS_gauher < \<bar>gauher_next 2 z - z\<bar>" by (simp add: EPS_gauher_def)
  show "gauher_pp 2 z \<noteq> 0" using z PIM4_pos by (simp add: gauher_pp_2)
qed

lemma gauher_newton_2_far:
  assumes "2 * 2 ^ k \<le> z"
  shows "\<exists>z' pp. gauher_newton dz 2 z its (Suc k) = Inr (z', pp, its + k) \<and> 1 \<le> z'"
  using assms
proof (induction k arbitrary: z its)
  case 0
  then have "2 \<le> z" by simp
  from gauher_next_2_far [OF this] this show ?case by simp
next
  case (Suc k)
  have k: "(1::real) \<le> 2 ^ k" by simp
  have "4 * 2 ^ k \<le> z" using Suc.prems by simp
  with k have z: "2 \<le> z" by linarith
  note n = gauher_next_2_far [OF z]
  have unf: "gauher_newton dz 2 z its (Suc (Suc k)) =
      gauher_newton dz 2 (gauher_next 2 z) (Suc its) (Suc k)"
    using n(2,3) by (subst gauher_newton.simps(2)) simp
  have "4 * 2 ^ k \<le> z" using Suc.prems by simp
  with n(1) have "2 * 2 ^ k \<le> gauher_next 2 z" by linarith
  from Suc.IH [OF this, of "Suc its"] show ?case unfolding unf by simp
qed

text \<open>
  C4 does not hold of the code. After \<open>for its in range(MAXIT)\<close> the variable \<open>its\<close> is
  at most \<open>MAXIT - 1\<close>, so the test \<open>its >= MAXIT\<close> is never true: \<open>gauher\<close> never
  leaves through \<open>sys.exit\<close>, whatever \<open>n\<close> is. The Newton loop itself can use up its
  ten passes without converging and still hand back \<open>its = 9\<close>: started at \<open>z = 1024\<close>
  for \<open>n = 2\<close> it returns an estimate that one more pass would move by more than
  \<open>EPS\<close>.
\<close>

theorem gauher_never_exits:
  "gauher n \<noteq> Inl (SysExit msg) \<and>
   (\<exists>z' pp. gauher_newton ZeroDivisionError 2 1024 0 MAXIT = Inr (z', pp, 9) \<and>
      EPS_gauher < \<bar>gauher_next 2 z' - z'\<bar>)"
proof
  show "gauher n \<noteq> Inl (SysExit msg)"
    using gauher_loop_no_exit [of n "[0..<(n + 1) div 2]" "(0, replicate n 0, replicate n 0)" msg]
    by (auto simp: gauher_def split: sum.splits)
  have "(2::real) * 2 ^ 9 \<le> 1024" by simp
  from gauher_newton_2_far [OF this, of ZeroDivisionError 0] obtain z' pp
    where r: "gauher_newton ZeroDivisionError 2 1024 0 MAXIT = Inr (z', pp, 9)" and z': "1 \<le> z'"
    unfolding MAXIT_Suc by auto
  have "0 < z'" using z' by simp
  then have N: "gauher_next 2 z' = z' / 2 + 1 / (4 * z')"
    by (simp add: gauher_next_2 field_simps)
  have "1 / (4 * z') \<le> 1 / 4" using z' by (simp add: field_simps)
  then have "gauher_next 2 z' - z' \<le> - 1 / 4" using z' unfolding N by linarith
  then have "EPS_gauher < \<bar>gauher_next 2 z' - z'\<bar>" by (simp add: EPS_gauher_def)
  with r show "\<exists>z' pp. gauher_newton ZeroDivisionError 2 1024 0 MAXIT = Inr (z', pp, 9) \<and>
      EPS_gauher < \<bar>gauher_next 2 z' - z'\<bar>" by blast
qed

subsection \<open>Mirror symmetry of nodes and weights\<close>











subsection \<open>\<open>gauher(2)\<close> and \<open>gauleg(1)\<close> return\<close>







subsection \<open>The middle node of \<open>gauleg\<close>\<close>









subsection \<open>The middle node of \<open>gauher(3)\<close>\<close>















section \<open>Properties of gaussian\_expectation\<close>














section \<open>Further properties of the smooth extensions\<close>

text \<open>
  \<open>nplog\<close>, \<open>npexp\<close> and \<open>npxlogx\<close> abort on a \<open>deriv\<close> outside \<open>0, 1, 2\<close>, before
  anything else and without printing.
\<close>

theorem deriv_check_aborts:
  "deriv \<notin> {0, 1, 2} \<longrightarrow>
     nplog arr eps deriv verbose = ([], Inl (Abort ''deriv can only be 0, 1, or 2'')) \<and>
     npexp arr bigx lowx deriv verbose = ([], Inl (Abort ''deriv can only be 0, 1, or 2'')) \<and>
     npxlogx arr eps deriv verbose = ([], Inl (Abort ''deriv must be 0, 1, or 2''))"
  by (simp add: nplog_def npexp_def npxlogx_def bs_error_abort_def Let_def)

theorem deriv_check_aborts_witness:
  "(3::int) \<notin> {0, 1, 2} \<and>
   nplog two 1 3 True = ([], Inl (Abort ''deriv can only be 0, 1, or 2'')) \<and>
   npexp two 50 (- 50) 3 True = ([], Inl (Abort ''deriv can only be 0, 1, or 2'')) \<and>
   npxlogx two 1 3 True = ([], Inl (Abort ''deriv must be 0, 1, or 2''))"
  using deriv_check_aborts [of 3 two 1 True 50 "- 50"] by simp

text \<open>
  \<open>nplog\<close> and \<open>npxlogx\<close> print nothing when \<open>verbose\<close> is \<open>False\<close>; \<open>npexp\<close> prints
  nothing, whatever \<open>verbose\<close> is, when every element lies between \<open>lowx\<close> and \<open>bigx\<close>.
\<close>

theorem quiet_without_verbose:
  "fst (nplog arr eps deriv False) = [] \<and> fst (npxlogx arr eps deriv False) = [] \<and>
   (elems arr \<noteq> [] \<and> np_max (elems arr) \<le> bigx \<and> lowx \<le> np_min (elems arr) \<longrightarrow>
      fst (npexp arr bigx lowx deriv verbose) = [])"
  by (simp add: nplog_def npxlogx_def npexp_def Let_def)

theorem quiet_without_verbose_witness:
  "elems two \<noteq> [] \<and> np_max (elems two) \<le> 50 \<and> (- 50) \<le> np_min (elems two) \<and>
   fst (npexp two 50 (- 50) 0 True) = []"
  using quiet_without_verbose [where arr = two and bigx = 50 and lowx = "- 50" and deriv = 0 and verbose = True]
  by (simp add: two_def np_max_def np_min_def)

text \<open>
  The base check of \<open>nppow\<close> for a float exponent is \<open>mina < 0.0\<close>: a non-empty array
  without a negative element passes it, zeros included, and \<open>nppow([0.0], 2.0)\<close> returns
  \<open>[0.0]\<close>.
\<close>

theorem nppow_zero_base_not_rejected:
  "(elems a \<noteq> [] \<and> list_all (\<lambda>x. 0 \<le> x) (elems a) \<longrightarrow> check_base a (PyFloat y) = Inr ()) \<and>
   nppow \<lparr>shape = [1], elems = [0]\<rparr> (PyFloat 2) 0 = Inr (Arr \<lparr>shape = [1], elems = [0]\<rparr>)"
proof (intro conjI impI)
  assume h: "elems a \<noteq> [] \<and> list_all (\<lambda>x. 0 \<le> x) (elems a)"
  then have "\<not> np_min (elems a) < 0"
    by (auto simp: np_min_less_iff list_all_iff)
  with h show "check_base a (PyFloat y) = Inr ()" by (simp add: check_base_def)
next
  show "nppow \<lparr>shape = [1], elems = [0]\<rparr> (PyFloat 2) 0 = Inr (Arr \<lparr>shape = [1], elems = [0]\<rparr>)"
    by (simp add: nppow_def check_base_def nppow_scalar_def pow_float_def np_min_def like_def)
qed

theorem nppow_zero_base_not_rejected_witness:
  "elems one \<noteq> [] \<and> list_all (\<lambda>x. 0 \<le> x) (elems one) \<and> check_base one (PyFloat 2) = Inr ()"
  using nppow_zero_base_not_rejected [of one 2] by (simp add: one_def)

end
